theory Spec2Isabelle
  imports Main
begin

section \<open>JavaScript values handled by the client\<close>

text \<open>
  The client (\<^verbatim>\<open>src/src/Client.ts\<close>) passes decoded JSON documents and caller
  arguments around as untyped JavaScript values. Numbers are modelled as integers (the
  client only tests them for truthiness and prints them); an object is the list of its
  own enumerable properties in enumeration order, with pairwise distinct keys; inherited
  prototype properties are outside the model.
\<close>

datatype jsval =
    JUndefined
  | JNull
  | JBool bool
  | JNum int
  | JStr string
  | JArr "jsval list"
  | JObj "(string \<times> jsval) list"

text \<open>The test \<^verbatim>\<open>if( v )\<close>.\<close>

fun truthy :: "jsval \<Rightarrow> bool" where
  "truthy JUndefined = False"
| "truthy JNull = False"
| "truthy (JBool b) = b"
| "truthy (JNum n) = (n \<noteq> 0)"
| "truthy (JStr s) = (s \<noteq> [])"
| "truthy (JArr xs) = True"
| "truthy (JObj kvs) = True"

definition digit_char :: "nat \<Rightarrow> char" where
  "digit_char d = ''0123456789'' ! d"

fun String_nat :: "nat \<Rightarrow> string" where
  "String_nat n =
     (if n < 10 then [digit_char n] else String_nat (n div 10) @ [digit_char (n mod 10)])"

declare String_nat.simps [simp del]

text \<open>
  \<^verbatim>\<open>String(n)\<close> and \<^verbatim>\<open>n.toString()\<close> on an integral number, printed in full
  (JavaScript switches to exponent form from \<open>1e21\<close>; fractions and \<^verbatim>\<open>NaN\<close> are
  outside the model).
\<close>

definition String_int :: "int \<Rightarrow> string" where
  "String_int i = (if i < 0 then ''-'' @ String_nat (nat (- i)) else String_nat (nat i))"

text \<open>\<^verbatim>\<open>xs.join(sep)\<close> on an array of strings.\<close>

fun join :: "string \<Rightarrow> string list \<Rightarrow> string" where
  "join sep [] = []"
| "join sep [x] = x"
| "join sep (x # y # ys) = x @ sep @ join sep (y # ys)"

text \<open>
  The string conversion that \<^verbatim>\<open>URLSearchParams.append\<close> applies to a value that
  is not a string.
\<close>

fun js_String :: "jsval \<Rightarrow> string" where
  "js_String JUndefined = ''undefined''"
| "js_String JNull = ''null''"
| "js_String (JBool b) = (if b then ''true'' else ''false'')"
| "js_String (JNum n) = String_int n"
| "js_String (JStr s) = s"
| "js_String (JArr xs) =
     join '','' (map (\<lambda>x. if x = JUndefined \<or> x = JNull then [] else js_String x) xs)"
| "js_String (JObj kvs) = ''[object Object]''"

text \<open>The keys visited by \<^verbatim>\<open>for( let k in v )\<close>.\<close>

fun for_in :: "jsval \<Rightarrow> string list" where
  "for_in (JObj kvs) = map fst kvs"
| "for_in (JArr xs) = map String_nat [0..<length xs]"
| "for_in (JStr s) = map String_nat [0..<length s]"
| "for_in v = []"

text \<open>
  The property read \<^verbatim>\<open>v[k]\<close> on a value that is neither \<^verbatim>\<open>undefined\<close> nor
  \<^verbatim>\<open>null\<close>: a missing property reads as \<^verbatim>\<open>undefined\<close>.
\<close>

definition own_prop :: "jsval \<Rightarrow> string \<Rightarrow> jsval" where
  "own_prop v k =
     (case v of
        JObj kvs \<Rightarrow> (case map_of kvs k of Some x \<Rightarrow> x | None \<Rightarrow> JUndefined)
      | JArr xs \<Rightarrow>
          (if k = ''length'' then JNum (int (length xs))
           else case filter (\<lambda>i. String_nat i = k) [0..<length xs] of
                  i # _ \<Rightarrow> xs ! i
                | [] \<Rightarrow> JUndefined)
      | JStr s \<Rightarrow>
          (if k = ''length'' then JNum (int (length s))
           else case filter (\<lambda>i. String_nat i = k) [0..<length s] of
                  i # _ \<Rightarrow> JStr [s ! i]
                | [] \<Rightarrow> JUndefined)
      | _ \<Rightarrow> JUndefined)"

text \<open>
  What a \<^verbatim>\<open>throw\<close> carries: an \<^verbatim>\<open>Error\<close> (or a subclass such as
  \<^verbatim>\<open>SyntaxError\<close>, \<^verbatim>\<open>TypeError\<close>) with its message, or a value that is not an
  instance of \<^verbatim>\<open>Error\<close>.
\<close>

datatype js_exn = Error string | NonError

text \<open>
  The property read \<^verbatim>\<open>v.k\<close> on any value: reading a property of \<^verbatim>\<open>undefined\<close>
  or \<^verbatim>\<open>null\<close> throws a \<^verbatim>\<open>TypeError\<close> (the message is the one Node prints).
\<close>

definition get_prop :: "jsval \<Rightarrow> string \<Rightarrow> js_exn + jsval" where
  "get_prop v k =
     (case v of
        JUndefined \<Rightarrow>
          Inl (Error (''Cannot read properties of undefined (reading '' @ [CHR 0x27] @ k @ [CHR 0x27] @ '')''))
      | JNull \<Rightarrow>
          Inl (Error (''Cannot read properties of null (reading '' @ [CHR 0x27] @ k @ [CHR 0x27] @ '')''))
      | _ \<Rightarrow> Inr (own_prop v k))"

section \<open>Promises\<close>

text \<open>
  The state in which a promise ends up: never settled, fulfilled with a value, or
  rejected with a reason.
\<close>

datatype 'a promise = Pending | Fulfilled 'a | Rejected js_exn

text \<open>
  \<^verbatim>\<open>new Promise(async resolve => { let r = await p; ... })\<close>: when \<open>p\<close> rejects,
  the \<^verbatim>\<open>await\<close> throws inside the async executor; the executor has no handler, its
  own promise rejects and the promise under construction is never settled.
\<close>

definition executor_await :: "'a promise \<Rightarrow> ('a \<Rightarrow> 'b promise) \<Rightarrow> 'b promise" where
  "executor_await p k =
     (case p of Fulfilled r \<Rightarrow> k r | Rejected e \<Rightarrow> Pending | Pending \<Rightarrow> Pending)"

text \<open>
  \<^verbatim>\<open>async f() { let r = await p; ... }\<close>: a rejection of \<open>p\<close> rejects the promise
  that the async function returns.
\<close>

definition async_await :: "'a promise \<Rightarrow> ('a \<Rightarrow> 'b promise) \<Rightarrow> 'b promise" where
  "async_await p k =
     (case p of Fulfilled r \<Rightarrow> k r | Rejected e \<Rightarrow> Rejected e | Pending \<Rightarrow> Pending)"

section \<open>The request encoder\<close>

record Client =
  mHost :: string
  mApiKey :: string

text \<open>
  A \<^verbatim>\<open>URLSearchParams\<close> is the list of its name/value pairs;
  \<^verbatim>\<open>append\<close> adds a pair at the end and \<^verbatim>\<open>get\<close> returns the first value
  stored under a name.
\<close>

type_synonym URLSearchParams = "(string \<times> string) list"

definition URLSearchParams_append :: "string \<Rightarrow> string \<Rightarrow> URLSearchParams \<Rightarrow> URLSearchParams" where
  "URLSearchParams_append name v ps = ps @ [(name, v)]"

definition URLSearchParams_get :: "URLSearchParams \<Rightarrow> string \<Rightarrow> string option" where
  "URLSearchParams_get ps name = map_of ps name"

definition URLSearchParams_keys :: "URLSearchParams \<Rightarrow> string list" where
  "URLSearchParams_keys ps = map fst ps"

text \<open>
  A \<^verbatim>\<open>URL\<close>: the text it was built from and its query parameters. The host is
  taken to be a well-formed base address of the server (scheme, authority, optional path,
  as the constructor's comment asks), so that \<^verbatim>\<open>new URL\<close> does not throw and the new
  URL starts with no query parameter.
\<close>

record URL =
  href :: string
  searchParams :: URLSearchParams

definition new_URL :: "string \<Rightarrow> URL" where
  "new_URL s = \<lparr>href = s, searchParams = []\<rparr>"

definition searchParams_append :: "string \<Rightarrow> string \<Rightarrow> URL \<Rightarrow> URL" where
  "searchParams_append name v u = u\<lparr>searchParams := URLSearchParams_append name v (searchParams u)\<rparr>"

text \<open>
  The \<^verbatim>\<open>args\<close> of \<^verbatim>\<open>methodCall\<close>: a \<^verbatim>\<open>URLSearchParams\<close> or any other value
  (\<^verbatim>\<open>undefined\<close> by default).
\<close>

datatype method_args = SearchParams URLSearchParams | Any jsval

text \<open>
  The first half of \<^verbatim>\<open>methodCall\<close>: the URL handed to \<^verbatim>\<open>got\<close>. The loop over
  \<^verbatim>\<open>args.keys()\<close> reads each value back with \<^verbatim>\<open>args.get(param) ?? ''\<close>; the loop
  over an object runs only when \<^verbatim>\<open>args\<close> is truthy, so its property reads cannot throw.
\<close>

definition methodCall_url :: "Client \<Rightarrow> string \<Rightarrow> method_args \<Rightarrow> string \<Rightarrow> URL" where
  "methodCall_url c method args output =
     (let apiUrl = new_URL (mHost c @ ''/api'');
          apiUrl =
            (case args of
               SearchParams ps \<Rightarrow>
                 fold (\<lambda>param u.
                         searchParams_append param
                           (case URLSearchParams_get ps param of Some v \<Rightarrow> v | None \<Rightarrow> [])
                           u)
                   (URLSearchParams_keys ps) apiUrl
             | Any v \<Rightarrow>
                 if truthy v
                 then fold (\<lambda>argKey u. searchParams_append argKey (js_String (own_prop v argKey)) u)
                        (for_in v) apiUrl
                 else apiUrl);
          apiUrl = searchParams_append ''mode'' method apiUrl;
          apiUrl = searchParams_append ''output'' output apiUrl;
          apiUrl = searchParams_append ''apikey'' (mApiKey c) apiUrl
      in apiUrl)"

section \<open>The transport and the response interpreter\<close>

text \<open>
  A multipart body (\<^verbatim>\<open>FormData\<close>): its fields in the order appended, each a text
  value or a stream (named here by the path it reads).
\<close>

datatype form_value = Text string | Stream string

type_synonym FormData = "(string \<times> form_value) list"

definition FormData_append :: "string \<Rightarrow> form_value \<Rightarrow> FormData \<Rightarrow> FormData" where
  "FormData_append name v fd = fd @ [(name, v)]"

text \<open>
  What a call of \<^verbatim>\<open>got\<close> does: it throws while the call is made, or the promise it
  returns rejects, or that promise fulfils with a response (status code and body).
\<close>

datatype got_outcome = GotThrows js_exn | GotRejects js_exn | GotResponds nat string

text \<open>
  The collaborators of the client: \<^verbatim>\<open>JSON.parse\<close> (\<open>Inl\<close> is the message of the
  \<^verbatim>\<open>SyntaxError\<close> it throws), \<^verbatim>\<open>got(url)\<close> and \<^verbatim>\<open>got.post(url, {body})\<close>.
\<close>

record Env =
  JSON_parse :: "string \<Rightarrow> string + jsval"
  got :: "URL \<Rightarrow> got_outcome"
  got_post :: "string \<Rightarrow> FormData \<Rightarrow> got_outcome"

text \<open>
  The callback given to \<^verbatim>\<open>.then\<close> in \<^verbatim>\<open>methodCall\<close>: \<open>Inl\<close> when it throws,
  otherwise what it did to the promise under construction (\<open>Pending\<close>: nothing).
\<close>

definition methodCall_then :: "Env \<Rightarrow> string \<Rightarrow> nat \<Rightarrow> string \<Rightarrow> js_exn + jsval promise" where
  "methodCall_then env output statusCode body =
     (if statusCode = 200 then
        (if output = ''json'' then
           (case JSON_parse env body of
              Inl m \<Rightarrow> Inl (Error m)
            | Inr responseObject \<Rightarrow> Inr (Fulfilled responseObject))
         else Inr (Fulfilled (JStr body)))
      else Inr Pending)"

text \<open>The handler given to \<^verbatim>\<open>.catch\<close> in \<^verbatim>\<open>methodCall\<close> and in \<^verbatim>\<open>addFile\<close>.\<close>

definition methodCall_catch :: "js_exn \<Rightarrow> jsval promise" where
  "methodCall_catch error =
     (case error of
        Error m \<Rightarrow> Rejected (Error (''Error accessing SABnzbd host: '' @ m))
      | NonError \<Rightarrow> Rejected (Error ''Error accessing SABnzbd host''))"

text \<open>
  \<^verbatim>\<open>methodCall\<close>: the \<^verbatim>\<open>try\<close> block covers the call of \<^verbatim>\<open>got\<close> and the
  registration of the two handlers; an exception thrown by the \<^verbatim>\<open>.then\<close> callback
  rejects the promise the \<^verbatim>\<open>.catch\<close> handler is attached to.
\<close>

definition methodCall :: "Env \<Rightarrow> Client \<Rightarrow> string \<Rightarrow> method_args \<Rightarrow> string \<Rightarrow> jsval promise" where
  "methodCall env c method args output =
     (case got env (methodCall_url c method args output) of
        GotThrows e \<Rightarrow> Rejected (Error ''Error parsing response as JSON'')
      | GotRejects e \<Rightarrow> methodCall_catch e
      | GotResponds statusCode body \<Rightarrow>
          (case methodCall_then env output statusCode body of
             Inl e \<Rightarrow> methodCall_catch e
           | Inr p \<Rightarrow> p))"

section \<open>The error messages of the client\<close>

text \<open>
  The client raises plain \<^verbatim>\<open>Error\<close> objects; the three kinds of failure are told
  apart by the message text the source gives them.
\<close>

definition is_Transport_Error :: "js_exn \<Rightarrow> bool" where
  "is_Transport_Error e =
     (case e of
        Error m \<Rightarrow> take (length ''Error accessing SABnzbd host'') m = ''Error accessing SABnzbd host''
      | NonError \<Rightarrow> False)"

definition is_Decode_Error :: "js_exn \<Rightarrow> bool" where
  "is_Decode_Error e = (e = Error ''Error parsing response as JSON'')"

definition is_Protocol_Error :: "js_exn \<Rightarrow> bool" where
  "is_Protocol_Error e = (e = Error ''Invalid response from SABnzbd'')"

section \<open>The public operations\<close>

text \<open>The enumerations of \<^verbatim>\<open>Types.ts\<close> with the values they stand for.\<close>

datatype SortOptions = AverageAge | Name | Size

fun SortOptions_value :: "SortOptions \<Rightarrow> string" where
  "SortOptions_value AverageAge = ''avg_age''"
| "SortOptions_value Name = ''name''"
| "SortOptions_value Size = ''size''"

datatype Priority =
  Priority_Default | Priority_Stop | Priority_Duplicate | Priority_Paused
  | Priority_Low | Priority_Normal | Priority_High | Priority_Force

fun Priority_value :: "Priority \<Rightarrow> int" where
  "Priority_value Priority_Default = - 100"
| "Priority_value Priority_Stop = - 4"
| "Priority_value Priority_Duplicate = - 3"
| "Priority_value Priority_Paused = - 2"
| "Priority_value Priority_Low = - 1"
| "Priority_value Priority_Normal = 0"
| "Priority_value Priority_High = 1"
| "Priority_value Priority_Force = 2"

datatype PostProcessing =
  PostProcessing_Default | PostProcessing_None | PostProcessing_Repair
  | PostProcessing_RepairUnpack | PostProcessing_RepairUnpackDelete

fun PostProcessing_value :: "PostProcessing \<Rightarrow> int" where
  "PostProcessing_value PostProcessing_Default = - 1"
| "PostProcessing_value PostProcessing_None = 0"
| "PostProcessing_value PostProcessing_Repair = 1"
| "PostProcessing_value PostProcessing_RepairUnpack = 2"
| "PostProcessing_value PostProcessing_RepairUnpackDelete = 3"

text \<open>
  The test \<^verbatim>\<open>if( p )\<close> on an optional parameter (\<open>None\<close> is \<^verbatim>\<open>undefined\<close>):
  a number, a string, an array.
\<close>

definition truthy_number :: "int option \<Rightarrow> bool" where
  "truthy_number p = (case p of None \<Rightarrow> False | Some n \<Rightarrow> n \<noteq> 0)"

definition truthy_string :: "string option \<Rightarrow> bool" where
  "truthy_string p = (case p of None \<Rightarrow> False | Some s \<Rightarrow> s \<noteq> [])"

definition truthy_array :: "'a list option \<Rightarrow> bool" where
  "truthy_array p = (case p of None \<Rightarrow> False | Some xs \<Rightarrow> True)"

subsection \<open>queue\<close>

definition queue_searchParams ::
  "int option \<Rightarrow> int option \<Rightarrow> string option \<Rightarrow> string list option \<Rightarrow> URLSearchParams" where
  "queue_searchParams start limit search nzoIds =
     (let searchParams = [];
          searchParams = (if truthy_number start
                          then URLSearchParams_append ''start'' (String_int (the start)) searchParams
                          else searchParams);
          searchParams = (if truthy_number limit
                          then URLSearchParams_append ''limit'' (String_int (the limit)) searchParams
                          else searchParams);
          searchParams = (if truthy_string search
                          then URLSearchParams_append ''search'' (the search) searchParams
                          else searchParams);
          searchParams = (if truthy_array nzoIds
                          then URLSearchParams_append ''nzo_ids'' (join '','' (the nzoIds)) searchParams
                          else searchParams)
      in searchParams)"

definition queue ::
  "Env \<Rightarrow> Client \<Rightarrow> int option \<Rightarrow> int option \<Rightarrow> string option \<Rightarrow> string list option \<Rightarrow> jsval promise" where
  "queue env c start limit search nzoIds =
     async_await
       (methodCall env c ''queue'' (SearchParams (queue_searchParams start limit search nzoIds)) ''json'')
       (\<lambda>resultsObj. case get_prop resultsObj ''queue'' of
                        Inl e \<Rightarrow> Rejected e
                      | Inr q \<Rightarrow> Fulfilled q)"

subsection \<open>queueSort\<close>

definition queueSort_args :: "SortOptions \<Rightarrow> bool \<Rightarrow> method_args" where
  "queueSort_args sortBy ascending =
     Any (JObj [(''name'', JStr ''sort''),
                (''dir'', JStr (if ascending then ''asc'' else ''desc'')),
                (''sort'', JStr (SortOptions_value sortBy))])"

definition queueSort :: "Env \<Rightarrow> Client \<Rightarrow> SortOptions \<Rightarrow> bool \<Rightarrow> jsval promise" where
  "queueSort env c sortBy ascending =
     executor_await (methodCall env c ''queue'' (queueSort_args sortBy ascending) ''json'')
       (\<lambda>results. Fulfilled results)"

subsection \<open>addUrl\<close>

definition addUrl_searchParams ::
  "string \<Rightarrow> string option \<Rightarrow> string option \<Rightarrow> string option \<Rightarrow> string option \<Rightarrow>
   Priority option \<Rightarrow> PostProcessing option \<Rightarrow> URLSearchParams" where
  "addUrl_searchParams url name password cat script priority postProcess =
     (let searchParams = [];
          searchParams = URLSearchParams_append ''name'' url searchParams;
          searchParams = (if truthy_string name
                          then URLSearchParams_append ''nzbname'' (the name) searchParams
                          else searchParams);
          searchParams = (if truthy_string password
                          then URLSearchParams_append ''password'' (the password) searchParams
                          else searchParams);
          searchParams = (if truthy_string cat
                          then URLSearchParams_append ''cat'' (the cat) searchParams
                          else searchParams);
          searchParams = (if truthy_string script
                          then URLSearchParams_append ''script'' (the script) searchParams
                          else searchParams);
          searchParams = (if truthy_number (map_option Priority_value priority)
                          then URLSearchParams_append ''priority''
                                 (String_int (Priority_value (the priority))) searchParams
                          else searchParams);
          searchParams = (if truthy_number (map_option PostProcessing_value postProcess)
                          then URLSearchParams_append ''pp''
                                 (String_int (PostProcessing_value (the postProcess))) searchParams
                          else searchParams)
      in searchParams)"

definition addUrl ::
  "Env \<Rightarrow> Client \<Rightarrow> string \<Rightarrow> string option \<Rightarrow> string option \<Rightarrow> string option \<Rightarrow> string option \<Rightarrow>
   Priority option \<Rightarrow> PostProcessing option \<Rightarrow> jsval promise" where
  "addUrl env c url name password cat script priority postProcess =
     executor_await
       (methodCall env c ''addurl''
          (SearchParams (addUrl_searchParams url name password cat script priority postProcess)) ''json'')
       (\<lambda>results. Fulfilled results)"

subsection \<open>addFile\<close>

text \<open>The form after \<^verbatim>\<open>addFile\<close> has appended its fields to the caller's form.\<close>

definition addFile_formData ::
  "Client \<Rightarrow> FormData \<Rightarrow> string option \<Rightarrow> string option \<Rightarrow> string option \<Rightarrow> string option \<Rightarrow>
   Priority option \<Rightarrow> PostProcessing option \<Rightarrow> FormData" where
  "addFile_formData c formData name password cat script priority postProcess =
     (let formData = FormData_append ''mode'' (Text ''addfile'') formData;
          formData = FormData_append ''output'' (Text ''json'') formData;
          formData = FormData_append ''apikey'' (Text (mApiKey c)) formData;
          formData = (if truthy_string name
                      then FormData_append ''nzbname'' (Text (the name)) formData else formData);
          formData = (if truthy_string password
                      then FormData_append ''password'' (Text (the password)) formData else formData);
          formData = (if truthy_string cat
                      then FormData_append ''cat'' (Text (the cat)) formData else formData);
          formData = (if truthy_string script
                      then FormData_append ''script'' (Text (the script)) formData else formData);
          formData = (if truthy_number (map_option Priority_value priority)
                      then FormData_append ''priority''
                             (Text (String_int (Priority_value (the priority)))) formData
                      else formData);
          formData = (if truthy_number (map_option PostProcessing_value postProcess)
                      then FormData_append ''pp''
                             (Text (String_int (PostProcessing_value (the postProcess)))) formData
                      else formData)
      in formData)"

definition addFile_then :: "Env \<Rightarrow> nat \<Rightarrow> string \<Rightarrow> js_exn + jsval promise" where
  "addFile_then env statusCode body =
     (if statusCode = 200 then
        (case JSON_parse env body of
           Inl m \<Rightarrow> Inl (Error m)
         | Inr resultObject \<Rightarrow> Inr (Fulfilled resultObject))
      else Inr Pending)"

definition addFile ::
  "Env \<Rightarrow> Client \<Rightarrow> FormData \<Rightarrow> string option \<Rightarrow> string option \<Rightarrow> string option \<Rightarrow> string option \<Rightarrow>
   Priority option \<Rightarrow> PostProcessing option \<Rightarrow> jsval promise" where
  "addFile env c formData name password cat script priority postProcess =
     (case got_post env (mHost c @ ''/api'')
             (addFile_formData c formData name password cat script priority postProcess) of
        GotThrows e \<Rightarrow> Rejected (Error ''Error parsing response as JSON'')
      | GotRejects e \<Rightarrow> methodCall_catch e
      | GotResponds statusCode body \<Rightarrow>
          (case addFile_then env statusCode body of
             Inl e \<Rightarrow> methodCall_catch e
           | Inr p \<Rightarrow> p))"

subsection \<open>jobDelete and setConfigDefault\<close>

text \<open>A parameter of type \<^verbatim>\<open>string|string[]\<close>.\<close>

datatype string_or_array = One string | Many "string list"

definition jobDelete_args :: "string_or_array \<Rightarrow> method_args" where
  "jobDelete_args id' =
     (case id' of
        Many ids \<Rightarrow> Any (JObj [(''name'', JStr ''delete''), (''value'', JStr (join '','' ids))])
      | One i \<Rightarrow> Any (JObj [(''name'', JStr ''delete''), (''value'', JStr i)]))"

definition jobDelete :: "Env \<Rightarrow> Client \<Rightarrow> string_or_array \<Rightarrow> jsval promise" where
  "jobDelete env c id' =
     executor_await (methodCall env c ''queue'' (jobDelete_args id') ''json'')
       (\<lambda>results. Fulfilled results)"

definition setConfigDefault_args :: "string_or_array \<Rightarrow> method_args" where
  "setConfigDefault_args keyword =
     (case keyword of
        Many values \<Rightarrow>
          SearchParams (fold (\<lambda>v searchParams. URLSearchParams_append ''keyword'' v searchParams) values [])
      | One k \<Rightarrow> Any (JObj [(''keyword'', JStr k)]))"

definition setConfigDefault :: "Env \<Rightarrow> Client \<Rightarrow> string_or_array \<Rightarrow> jsval promise" where
  "setConfigDefault env c keyword =
     executor_await (methodCall env c ''set_config_default'' (setConfigDefault_args keyword) ''json'')
       (\<lambda>results. Fulfilled results)"

subsection \<open>getFiles, version, translateText\<close>

text \<open>
  An exception thrown inside an async executor after the \<^verbatim>\<open>await\<close> (a property read
  on \<^verbatim>\<open>null\<close>) is lost like a rejection of the awaited promise: nothing settles.
\<close>

definition getFiles :: "Env \<Rightarrow> Client \<Rightarrow> string \<Rightarrow> jsval promise" where
  "getFiles env c id' =
     executor_await (methodCall env c ''get_files'' (Any (JObj [(''value'', JStr id')])) ''json'')
       (\<lambda>results. case get_prop results ''files'' of
                     Inl e \<Rightarrow> Pending
                   | Inr files \<Rightarrow> Fulfilled files)"

definition version :: "Env \<Rightarrow> Client \<Rightarrow> jsval promise" where
  "version env c =
     executor_await (methodCall env c ''version'' (Any JUndefined) ''json'')
       (\<lambda>results. case get_prop results ''version'' of
                     Inl e \<Rightarrow> Pending
                   | Inr v \<Rightarrow> if truthy v then Fulfilled v
                             else Rejected (Error ''Invalid response from SABnzbd''))"

definition translateText :: "Env \<Rightarrow> Client \<Rightarrow> string \<Rightarrow> jsval promise" where
  "translateText env c text =
     executor_await (methodCall env c ''translate'' (Any (JObj [(''value'', JStr text)])) ''json'')
       (\<lambda>results. case get_prop results ''value'' of
                     Inl e \<Rightarrow> Pending
                   | Inr v \<Rightarrow>
                       if truthy v then Pending
                       else Rejected (Error (''Error in API call'' @
                              (if truthy (own_prop results ''error'')
                               then '': '' @ js_String (own_prop results ''error'')
                               else []))))"

subsection \<open>serverStats\<close>

text \<open>
  A \<^verbatim>\<open>Map\<close> is the list of its entries in insertion order; \<^verbatim>\<open>set\<close> replaces
  the value of a key that is present and adds a new key at the end.
\<close>

primrec Map_set :: "'k \<Rightarrow> 'v \<Rightarrow> ('k \<times> 'v) list \<Rightarrow> ('k \<times> 'v) list" where
  "Map_set k v [] = [(k, v)]"
| "Map_set k v (e # es) = (if fst e = k then (k, v) # es else e # Map_set k v es)"

definition Map_get :: "('k \<times> 'v) list \<Rightarrow> 'k \<Rightarrow> 'v option" where
  "Map_get m k = map_of m k"

record Totals =
  day :: jsval
  week :: jsval
  month :: jsval
  total :: jsval

record ServerStats = Totals +
  daily :: "(string \<times> jsval) list"
  articles_tried :: "(string \<times> jsval) list"
  articles_success :: "(string \<times> jsval) list"

record Stats = Totals +
  servers :: "(string \<times> ServerStats) list"

text \<open>
  One of the three inner loops \<^verbatim>\<open>for( let d in src ) m.set(d, from[d])\<close>: the keys
  visited, the read of the value, the lookup built so far. A read that throws ends the loop.
\<close>

fun date_loop ::
  "string list \<Rightarrow> (string \<Rightarrow> js_exn + jsval) \<Rightarrow> (string \<times> jsval) list \<Rightarrow> js_exn + (string \<times> jsval) list" where
  "date_loop [] rd m = Inr m"
| "date_loop (d # ds) rd m =
     (case rd d of
        Inl e \<Rightarrow> Inl e
      | Inr v \<Rightarrow> date_loop ds rd (Map_set d v m))"

text \<open>
  The body of the loop over the servers. The first property read throws when
  \<^verbatim>\<open>serverResult\<close> is \<^verbatim>\<open>null\<close>; the later ones then cannot. The third loop visits
  the keys of \<^verbatim>\<open>articles_success\<close> and reads \<^verbatim>\<open>serverResult.articles_tried\<close>.
\<close>

definition serverStats_server :: "jsval \<Rightarrow> js_exn + ServerStats" where
  "serverStats_server serverResult =
     (case get_prop serverResult ''day'' of
        Inl e \<Rightarrow> Inl e
      | Inr d \<Rightarrow>
          (let server = \<lparr>day = d,
                         week = own_prop serverResult ''week'',
                         month = own_prop serverResult ''month'',
                         total = own_prop serverResult ''total'',
                         daily = [], articles_tried = [], articles_success = []\<rparr>
           in case date_loop (for_in (own_prop serverResult ''daily''))
                     (\<lambda>dailyDate. get_prop (own_prop serverResult ''daily'') dailyDate)
                     (daily server) of
                Inl e \<Rightarrow> Inl e
              | Inr dm \<Rightarrow>
                 (case date_loop (for_in (own_prop serverResult ''articles_tried''))
                         (\<lambda>articlesTriedDate.
                            get_prop (own_prop serverResult ''articles_tried'') articlesTriedDate)
                         (articles_tried server) of
                    Inl e \<Rightarrow> Inl e
                  | Inr tm \<Rightarrow>
                     (case date_loop (for_in (own_prop serverResult ''articles_success''))
                             (\<lambda>articlesSuccessDate.
                                get_prop (own_prop serverResult ''articles_tried'') articlesSuccessDate)
                             (articles_success server) of
                        Inl e \<Rightarrow> Inl e
                      | Inr sm \<Rightarrow>
                          Inr (server\<lparr>daily := dm, articles_tried := tm,
                                       articles_success := sm\<rparr>)))))"

text \<open>The loop \<^verbatim>\<open>for( let serverName in results.servers )\<close>.\<close>

fun servers_loop ::
  "jsval \<Rightarrow> string list \<Rightarrow> (string \<times> ServerStats) list \<Rightarrow> js_exn + (string \<times> ServerStats) list" where
  "servers_loop srvs [] m = Inr m"
| "servers_loop srvs (serverName # rest) m =
     (case get_prop srvs serverName of
        Inl e \<Rightarrow> Inl e
      | Inr serverResult \<Rightarrow>
          (case serverStats_server serverResult of
             Inl e \<Rightarrow> Inl e
           | Inr server \<Rightarrow> servers_loop srvs rest (Map_set serverName server m)))"

text \<open>What the executor of \<^verbatim>\<open>serverStats\<close> does with the decoded response.\<close>

definition serverStats_project :: "jsval \<Rightarrow> js_exn + Stats" where
  "serverStats_project results =
     (case get_prop results ''day'' of
        Inl e \<Rightarrow> Inl e
      | Inr d \<Rightarrow>
          (let stats = \<lparr>day = d,
                        week = own_prop results ''week'',
                        month = own_prop results ''month'',
                        total = own_prop results ''total'',
                        servers = []\<rparr>
           in case servers_loop (own_prop results ''servers'')
                     (for_in (own_prop results ''servers'')) (servers stats) of
                Inl e \<Rightarrow> Inl e
              | Inr m \<Rightarrow> Inr (stats\<lparr>servers := m\<rparr>)))"

definition serverStats :: "Env \<Rightarrow> Client \<Rightarrow> Stats promise" where
  "serverStats env c =
     executor_await (methodCall env c ''server_stats'' (Any JUndefined) ''json'')
       (\<lambda>results. case serverStats_project results of
                     Inl e \<Rightarrow> Pending
                   | Inr stats \<Rightarrow> Fulfilled stats)"

section \<open>Example inputs\<close>

text \<open>
  A client, and a server that answers every request with the given status code and
  body, where \<^verbatim>\<open>JSON.parse\<close> of that body gives \<open>parsed\<close>.
\<close>

definition example_client :: Client where
  "example_client = \<lparr>mHost = ''http://localhost:8080'', mApiKey = ''k3y''\<rparr>"

definition env_responding :: "nat \<Rightarrow> string \<Rightarrow> string + jsval \<Rightarrow> Env" where
  "env_responding statusCode body parsed =
     \<lparr>JSON_parse = (\<lambda>b. parsed),
      got = (\<lambda>url. GotResponds statusCode body),
      got_post = (\<lambda>url form. GotResponds statusCode body)\<rparr>"

text \<open>
  A server that answers 200 to the GET requests for which \<open>expected\<close> holds, with a
  body that \<^verbatim>\<open>JSON.parse\<close> decodes to \<open>decoded\<close>, and refuses every other request.
\<close>

definition env_expecting :: "(URL \<Rightarrow> bool) \<Rightarrow> jsval \<Rightarrow> Env" where
  "env_expecting expected decoded =
     \<lparr>JSON_parse = (\<lambda>b. Inr decoded),
      got = (\<lambda>url. if expected url then GotResponds 200 ''(body)''
                   else GotRejects (Error ''unexpected request'')),
      got_post = (\<lambda>url form. GotRejects (Error ''unexpected request''))\<rparr>"


text \<open>
  A server that answers 200 with the body \<open>{}\<close> to the requests that carry the three
  control fields with the key of the example client (\<open>mode = version\<close> in a query,
  \<open>mode = addfile\<close> in a form), and whose connection fails for every other request.
\<close>

definition env_strict :: Env where
  "env_strict =
     \<lparr>JSON_parse = (\<lambda>b. Inr (JObj [])),
      got = (\<lambda>url. if (''mode'', ''version'') \<in> set (searchParams url)
                      \<and> (''output'', ''json'') \<in> set (searchParams url)
                      \<and> (''apikey'', ''k3y'') \<in> set (searchParams url)
                   then GotResponds 200 ''{}'' else GotRejects NonError),
      got_post = (\<lambda>url form. if (''mode'', Text ''addfile'') \<in> set form
                      \<and> (''output'', Text ''json'') \<in> set form
                      \<and> (''apikey'', Text ''k3y'') \<in> set form
                   then GotResponds 200 ''{}'' else GotRejects NonError)\<rparr>"

text \<open>
  A decoded \<open>server_stats\<close> response with two servers and three dates each, what
  \<^verbatim>\<open>serverStats\<close> makes of it, and the same response with the servers and the dates
  in another order.
\<close>

definition example_stats :: jsval where
  "example_stats =
     JObj [(''day'', JNum 10), (''week'', JNum 20), (''month'', JNum 30), (''total'', JNum 40),
       (''servers'', JObj [
          (''news.alpha'', JObj [
             (''day'', JNum 1), (''week'', JNum 2), (''month'', JNum 3), (''total'', JNum 4),
             (''daily'', JObj [(''2021-07-01'', JNum 11), (''2021-07-02'', JNum 12),
                               (''2021-07-03'', JNum 13)]),
             (''articles_tried'', JObj [(''2021-07-01'', JNum 21), (''2021-07-02'', JNum 22),
                                        (''2021-07-03'', JNum 23)]),
             (''articles_success'', JObj [(''2021-07-01'', JNum 31), (''2021-07-02'', JNum 32),
                                          (''2021-07-03'', JNum 33)])]),
          (''news.beta'', JObj [
             (''day'', JNum 5), (''week'', JNum 6), (''month'', JNum 7), (''total'', JNum 8),
             (''daily'', JObj [(''2021-07-01'', JNum 41), (''2021-07-02'', JNum 42),
                               (''2021-07-03'', JNum 43)]),
             (''articles_tried'', JObj [(''2021-07-01'', JNum 51), (''2021-07-02'', JNum 52),
                                        (''2021-07-03'', JNum 53)]),
             (''articles_success'', JObj [(''2021-07-01'', JNum 61), (''2021-07-02'', JNum 62),
                                          (''2021-07-03'', JNum 63)])])])]"

definition example_stats_result :: Stats where
  "example_stats_result =
     \<lparr>day = JNum 10, week = JNum 20, month = JNum 30, total = JNum 40,
      servers = [
        (''news.alpha'',
           \<lparr>day = JNum 1, week = JNum 2, month = JNum 3, total = JNum 4,
            daily = [(''2021-07-01'', JNum 11), (''2021-07-02'', JNum 12), (''2021-07-03'', JNum 13)],
            articles_tried = [(''2021-07-01'', JNum 21), (''2021-07-02'', JNum 22),
                              (''2021-07-03'', JNum 23)],
            articles_success = [(''2021-07-01'', JNum 21), (''2021-07-02'', JNum 22),
                                (''2021-07-03'', JNum 23)]\<rparr>),
        (''news.beta'',
           \<lparr>day = JNum 5, week = JNum 6, month = JNum 7, total = JNum 8,
            daily = [(''2021-07-01'', JNum 41), (''2021-07-02'', JNum 42), (''2021-07-03'', JNum 43)],
            articles_tried = [(''2021-07-01'', JNum 51), (''2021-07-02'', JNum 52),
                              (''2021-07-03'', JNum 53)],
            articles_success = [(''2021-07-01'', JNum 51), (''2021-07-02'', JNum 52),
                                (''2021-07-03'', JNum 53)]\<rparr>)]\<rparr>"

definition example_stats_reordered :: jsval where
  "example_stats_reordered =
     JObj [(''servers'', JObj [
          (''news.beta'', JObj [
             (''articles_success'', JObj [(''2021-07-03'', JNum 63), (''2021-07-01'', JNum 61),
                                          (''2021-07-02'', JNum 62)]),
             (''articles_tried'', JObj [(''2021-07-02'', JNum 52), (''2021-07-03'', JNum 53),
                                        (''2021-07-01'', JNum 51)]),
             (''daily'', JObj [(''2021-07-03'', JNum 43), (''2021-07-02'', JNum 42),
                               (''2021-07-01'', JNum 41)]),
             (''day'', JNum 5), (''week'', JNum 6), (''month'', JNum 7), (''total'', JNum 8)]),
          (''news.alpha'', JObj [
             (''articles_success'', JObj [(''2021-07-02'', JNum 32), (''2021-07-03'', JNum 33),
                                          (''2021-07-01'', JNum 31)]),
             (''articles_tried'', JObj [(''2021-07-03'', JNum 23), (''2021-07-01'', JNum 21),
                                        (''2021-07-02'', JNum 22)]),
             (''daily'', JObj [(''2021-07-02'', JNum 12), (''2021-07-01'', JNum 11),
                               (''2021-07-03'', JNum 13)]),
             (''day'', JNum 1), (''week'', JNum 2), (''month'', JNum 3), (''total'', JNum 4)])]),
       (''total'', JNum 40), (''month'', JNum 30), (''week'', JNum 20), (''day'', JNum 10)]"

section \<open>Properties of the request encoder\<close>

lemma searchParams_fold_append:
  "searchParams (fold (\<lambda>k u. searchParams_append k (f k) u) ks u) =
     searchParams u @ map (\<lambda>k. (k, f k)) ks"
  by (induction ks arbitrary: u) (simp_all add: searchParams_append_def URLSearchParams_append_def)

lemma href_fold_append:
  "href (fold (\<lambda>k u. searchParams_append k (f k) u) ks u) = href u"
  by (induction ks arbitrary: u) (simp_all add: searchParams_append_def)

text \<open>
  The query of every encoded request: one pair per key visited in \<^verbatim>\<open>args\<close>, then the
  three mandatory fields. For a \<^verbatim>\<open>URLSearchParams\<close> the value paired with a name is
  the first one stored under that name.
\<close>

lemma methodCall_url_searchParams:
  "searchParams (methodCall_url c method args output) =
     (case args of
        SearchParams ps \<Rightarrow>
          map (\<lambda>k. (k, case map_of ps k of Some v \<Rightarrow> v | None \<Rightarrow> [])) (map fst ps)
      | Any v \<Rightarrow> if truthy v then map (\<lambda>k. (k, js_String (own_prop v k))) (for_in v) else [])
     @ [(''mode'', method), (''output'', output), (''apikey'', mApiKey c)]"
  by (cases args)
     (simp_all add: methodCall_url_def Let_def searchParams_fold_append
        searchParams_append_def URLSearchParams_append_def URLSearchParams_get_def
        URLSearchParams_keys_def new_URL_def)

lemma methodCall_url_href: "href (methodCall_url c method args output) = mHost c @ ''/api''"
  by (cases args)
     (simp_all add: methodCall_url_def Let_def href_fold_append searchParams_append_def new_URL_def)

lemma methodCall_url_record:
  "methodCall_url c method args output =
     \<lparr>href = mHost c @ ''/api'', searchParams = searchParams (methodCall_url c method args output)\<rparr>"
  by (intro URL.equality) (simp_all add: methodCall_url_href)


text \<open>
  Against a server that answers only the expected requests, \<^verbatim>\<open>methodCall\<close> is
  fulfilled when its request is an expected one and rejected otherwise.
\<close>

lemma methodCall_expected:
  "expected (methodCall_url c method args ''json'') \<Longrightarrow>
   methodCall (env_expecting expected decoded) c method args ''json'' = Fulfilled decoded"
  by (simp add: methodCall_def methodCall_then_def env_expecting_def)

lemma methodCall_unexpected:
  "\<not> expected (methodCall_url c method args output) \<Longrightarrow>
   methodCall (env_expecting expected decoded) c method args output
     = Rejected (Error ''Error accessing SABnzbd host: unexpected request'')"
  by (simp add: methodCall_def methodCall_catch_def env_expecting_def)

lemma first_values_distinct:
  "distinct (map fst ps) \<Longrightarrow>
   map (\<lambda>k. (k, case map_of ps k of Some v \<Rightarrow> v | None \<Rightarrow> [])) (map fst ps) = ps"
proof (induction ps)
  case Nil
  show ?case by simp
next
  case (Cons p ps)
  obtain k v where p: "p = (k, v)" by (cases p)
  from Cons.prems p have notin: "k \<notin> fst ` set ps" and d: "distinct (map fst ps)" by auto
  have "map (\<lambda>x. (x, case map_of (p # ps) x of Some v \<Rightarrow> v | None \<Rightarrow> [])) (map fst ps)
      = map (\<lambda>x. (x, case map_of ps x of Some v \<Rightarrow> v | None \<Rightarrow> [])) (map fst ps)"
    using notin p by (intro map_cong) auto
  with Cons.IH [OF d] p show ?case by simp
qed

text \<open>
  With pairwise distinct names, the parameters of a \<^verbatim>\<open>URLSearchParams\<close> argument
  reach the URL unchanged and in order, before the three mandatory fields.
\<close>

lemma methodCall_url_distinct_SearchParams:
  "distinct (map fst ps) \<Longrightarrow>
   searchParams (methodCall_url c method (SearchParams ps) output) =
     ps @ [(''mode'', method), (''output'', output), (''apikey'', mApiKey c)]"
  by (simp add: methodCall_url_searchParams first_values_distinct del: map_map)

text \<open>The same for an object argument whose values are strings.\<close>

lemma own_prop_JObj_distinct:
  "distinct (map fst kvs) \<Longrightarrow> map (\<lambda>k. (k, own_prop (JObj kvs) k)) (map fst kvs) = kvs"
proof (induction kvs)
  case Nil
  show ?case by simp
next
  case (Cons p kvs)
  obtain k v where p: "p = (k, v)" by (cases p)
  from Cons.prems p have notin: "k \<notin> fst ` set kvs" and d: "distinct (map fst kvs)" by auto
  have "map (\<lambda>x. (x, own_prop (JObj (p # kvs)) x)) (map fst kvs)
      = map (\<lambda>x. (x, own_prop (JObj kvs) x)) (map fst kvs)"
    using notin p by (intro map_cong) (auto simp: own_prop_def)
  with Cons.IH [OF d] p show ?case by (simp add: own_prop_def)
qed

text \<open>
  The call made by \<^verbatim>\<open>queueSort(SortOptions.Size, false)\<close>: the three arguments in
  the order written, then \<open>mode\<close>, \<open>output\<close>, \<open>apikey\<close>.
\<close>

lemma queueSort_url:
  "methodCall_url c ''queue'' (queueSort_args Size False) ''json'' =
     \<lparr>href = mHost c @ ''/api'',
      searchParams = [(''name'', ''sort''), (''dir'', ''desc''), (''sort'', ''size''),
                      (''mode'', ''queue''), (''output'', ''json''), (''apikey'', mApiKey c)]\<rparr>"
  by (simp add: methodCall_url_def Let_def queueSort_args_def searchParams_append_def
        URLSearchParams_append_def new_URL_def own_prop_def)

text \<open>
  C4 (the query parameters of every dispatched call are exactly the arguments supplied,
  in order, followed by \<open>mode\<close>, \<open>output\<close>, \<open>apikey\<close>). The loop of
  \<^verbatim>\<open>methodCall\<close> over \<^verbatim>\<open>args.keys()\<close> reads each value with
  \<^verbatim>\<open>args.get(param)\<close>, which returns the first value stored under the name: the
  arguments \<open>keyword=a\<close>, \<open>keyword=b\<close>, as \<^verbatim>\<open>setConfigDefault(["a", "b"])\<close>
  supplies them, are encoded as \<open>keyword=a\<close> twice, and \<open>b\<close> is lost. This is
  the request that \<^verbatim>\<open>setConfigDefault(["a", "b"])\<close> sends: a server that answers
  this URL and no other fulfils the call.
\<close>

theorem methodCall_repeated_name:
  "searchParams (methodCall_url example_client ''set_config_default''
      (SearchParams [(''keyword'', ''a''), (''keyword'', ''b'')]) ''json'') =
     [(''keyword'', ''a''), (''keyword'', ''a''),
      (''mode'', ''set_config_default''), (''output'', ''json''), (''apikey'', ''k3y'')]
   \<and> setConfigDefault
        (env_expecting
           ((=) \<lparr>href = ''http://localhost:8080/api'',
                 searchParams = [(''keyword'', ''a''), (''keyword'', ''a''),
                                 (''mode'', ''set_config_default''), (''output'', ''json''),
                                 (''apikey'', ''k3y'')]\<rparr>)
           (JObj [(''status'', JBool True)]))
        example_client (Many [''a'', ''b''])
       = Fulfilled (JObj [(''status'', JBool True)])"
proof -
  have a: "searchParams (methodCall_url example_client ''set_config_default''
      (SearchParams [(''keyword'', ''a''), (''keyword'', ''b'')]) ''json'') =
     [(''keyword'', ''a''), (''keyword'', ''a''),
      (''mode'', ''set_config_default''), (''output'', ''json''), (''apikey'', ''k3y'')]"
    by (simp add: methodCall_url_searchParams example_client_def)
  have b: "setConfigDefault_args (Many [''a'', ''b''])
             = SearchParams [(''keyword'', ''a''), (''keyword'', ''b'')]"
    by (simp add: setConfigDefault_args_def URLSearchParams_append_def)
  have "methodCall_url example_client ''set_config_default''
      (SearchParams [(''keyword'', ''a''), (''keyword'', ''b'')]) ''json''
     = \<lparr>href = ''http://localhost:8080/api'',
        searchParams = [(''keyword'', ''a''), (''keyword'', ''a''),
                        (''mode'', ''set_config_default''), (''output'', ''json''),
                        (''apikey'', ''k3y'')]\<rparr>"
    using a by (intro URL.equality) (simp_all add: methodCall_url_href example_client_def)
  then have "setConfigDefault
        (env_expecting
           ((=) \<lparr>href = ''http://localhost:8080/api'',
                 searchParams = [(''keyword'', ''a''), (''keyword'', ''a''),
                                 (''mode'', ''set_config_default''), (''output'', ''json''),
                                 (''apikey'', ''k3y'')]\<rparr>)
           (JObj [(''status'', JBool True)]))
        example_client (Many [''a'', ''b''])
       = Fulfilled (JObj [(''status'', JBool True)])"
    by (simp add: setConfigDefault_def executor_await_def methodCall_expected b)
  with a show ?thesis by (intro conjI)
qed






text \<open>
  The two servers of the example differ on requests without the fields: the first
  refuses them, the second answers. Both calls reach the first server with the fields and
  are fulfilled.
\<close>

lemma env_strict_example:
  "got env_strict (new_URL ''http://localhost:8080/api'') = GotRejects NonError
   \<and> got (env_responding 200 ''{}'' (Inr (JObj []))) (new_URL ''http://localhost:8080/api'')
       = GotResponds 200 ''{}''
   \<and> got_post env_strict ''http://localhost:8080/api'' [(''nzbfile'', Stream ''/path/to/file'')]
       = GotRejects NonError
   \<and> methodCall env_strict example_client ''version'' (Any JUndefined) ''json''
       = Fulfilled (JObj [])
   \<and> addFile env_strict example_client [(''nzbfile'', Stream ''/path/to/file'')]
         None None None None None None = Fulfilled (JObj [])"
  by (simp add: env_strict_def env_responding_def new_URL_def methodCall_def methodCall_then_def
        methodCall_url_searchParams addFile_def addFile_then_def addFile_formData_def Let_def
        FormData_append_def truthy_string_def truthy_number_def example_client_def)

subsection \<open>Optional parameters\<close>

text \<open>
  When \<^verbatim>\<open>addUrl\<close> sends a \<open>priority\<close> field: for a priority whose number is
  not 0, and then once.
\<close>

lemma addUrl_priority_field:
  "filter (\<lambda>p. fst p = ''priority'')
     (addUrl_searchParams url name password cat script priority postProcess) =
     (case priority of
        None \<Rightarrow> []
      | Some p \<Rightarrow> if Priority_value p = 0 then []
                  else [(''priority'', String_int (Priority_value p))])"
  by (simp add: addUrl_searchParams_def Let_def URLSearchParams_append_def truthy_number_def
           split: option.splits)

text \<open>
  C2 (a named argument appears if and only if the caller supplied a defined, non-empty
  value, and every supplied parameter appears exactly once). The presence test is
  \<^verbatim>\<open>if( priority )\<close>, and \<^verbatim>\<open>Priority.Normal\<close> is the number 0: a caller who passes
  \<^verbatim>\<open>Priority.Normal\<close> to \<^verbatim>\<open>addUrl\<close> gets a request without a \<open>priority\<close> field:
  a server that answers this URL and no other fulfils the call.
\<close>

theorem addUrl_priority_Normal:
  "searchParams (methodCall_url example_client ''addurl''
      (SearchParams (addUrl_searchParams ''http://example.com/a.nzb'' None None None None
                       (Some Priority_Normal) None)) ''json'') =
     [(''name'', ''http://example.com/a.nzb''),
      (''mode'', ''addurl''), (''output'', ''json''), (''apikey'', ''k3y'')]
   \<and> addUrl
        (env_expecting
           ((=) \<lparr>href = ''http://localhost:8080/api'',
                 searchParams = [(''name'', ''http://example.com/a.nzb''),
                                 (''mode'', ''addurl''), (''output'', ''json''),
                                 (''apikey'', ''k3y'')]\<rparr>)
           (JObj [(''status'', JBool True)]))
        example_client ''http://example.com/a.nzb'' None None None None
        (Some Priority_Normal) None
       = Fulfilled (JObj [(''status'', JBool True)])"
proof -
  have a: "searchParams (methodCall_url example_client ''addurl''
      (SearchParams (addUrl_searchParams ''http://example.com/a.nzb'' None None None None
                       (Some Priority_Normal) None)) ''json'') =
     [(''name'', ''http://example.com/a.nzb''),
      (''mode'', ''addurl''), (''output'', ''json''), (''apikey'', ''k3y'')]"
    by (simp add: methodCall_url_searchParams addUrl_searchParams_def Let_def truthy_string_def
        truthy_number_def URLSearchParams_append_def example_client_def)
  have b: "href (methodCall_url example_client ''addurl''
      (SearchParams (addUrl_searchParams ''http://example.com/a.nzb'' None None None None
                       (Some Priority_Normal) None)) ''json'') = ''http://localhost:8080/api''"
    by (simp add: methodCall_url_href example_client_def)
  have "methodCall_url example_client ''addurl''
      (SearchParams (addUrl_searchParams ''http://example.com/a.nzb'' None None None None
                       (Some Priority_Normal) None)) ''json''
     = \<lparr>href = ''http://localhost:8080/api'',
        searchParams = [(''name'', ''http://example.com/a.nzb''),
                        (''mode'', ''addurl''), (''output'', ''json''), (''apikey'', ''k3y'')]\<rparr>"
    using a b by (intro URL.equality) simp_all
  then have "addUrl
        (env_expecting
           ((=) \<lparr>href = ''http://localhost:8080/api'',
                 searchParams = [(''name'', ''http://example.com/a.nzb''),
                                 (''mode'', ''addurl''), (''output'', ''json''),
                                 (''apikey'', ''k3y'')]\<rparr>)
           (JObj [(''status'', JBool True)]))
        example_client ''http://example.com/a.nzb'' None None None None
        (Some Priority_Normal) None
       = Fulfilled (JObj [(''status'', JBool True)])"
    by (simp add: addUrl_def executor_await_def methodCall_expected)
  with a show ?thesis by (intro conjI)
qed

text \<open>
  The same test lets an empty array through: \<^verbatim>\<open>queue(undefined, undefined, undefined, [])\<close>
  sends \<open>nzo_ids\<close> with the empty string as its value.
\<close>

lemma queue_empty_nzoIds:
  "searchParams (methodCall_url example_client ''queue''
      (SearchParams (queue_searchParams None None None (Some []))) ''json'') =
     [(''nzo_ids'', []), (''mode'', ''queue''), (''output'', ''json''), (''apikey'', ''k3y'')]"
  by (simp add: methodCall_url_searchParams queue_searchParams_def Let_def truthy_string_def
        truthy_number_def truthy_array_def URLSearchParams_append_def example_client_def)

subsection \<open>List-valued arguments\<close>

lemma queue_searchParams_distinct:
  "distinct (map fst (queue_searchParams start limit search nzoIds))"
  by (simp add: queue_searchParams_def Let_def URLSearchParams_append_def)

lemma queue_searchParams_nzo_ids:
  "filter (\<lambda>p. fst p = ''nzo_ids'') (queue_searchParams start limit search (Some ids)) =
     [(''nzo_ids'', join '','' ids)]"
  by (simp add: queue_searchParams_def Let_def URLSearchParams_append_def truthy_array_def)

lemma keyword_fold:
  "fold (\<lambda>v searchParams. URLSearchParams_append ''keyword'' v searchParams) vs acc =
     acc @ map (\<lambda>v. (''keyword'', v)) vs"
  by (induction vs arbitrary: acc) (simp_all add: URLSearchParams_append_def)

lemma map_const_replicate: "map (\<lambda>x. c) xs = replicate (length xs) c"
  by (induction xs) simp_all

text \<open>
  C5, as the code has it: \<^verbatim>\<open>jobDelete\<close> and \<^verbatim>\<open>queue\<close> send a list of identifiers as
  one field, the values joined by commas (\<open>value\<close> and \<open>nzo_ids\<close>);
  \<^verbatim>\<open>setConfigDefault\<close> appends the key \<open>keyword\<close> once per element of the list, so
  the request has as many \<open>keyword\<close> fields as the list has elements. The first three
  parts describe the URL built from the arguments of each operation; the last three say
  that these are the requests the operations send: each operation is fulfilled by a server
  that answers only a request of that shape.
\<close>

theorem list_valued_arguments:
  "searchParams (methodCall_url c ''queue'' (jobDelete_args (Many ids)) ''json'') =
     [(''name'', ''delete''), (''value'', join '','' ids),
      (''mode'', ''queue''), (''output'', ''json''), (''apikey'', mApiKey c)]
   \<and> filter (\<lambda>p. fst p = ''nzo_ids'')
        (searchParams (methodCall_url c ''queue''
           (SearchParams (queue_searchParams start limit search (Some ids))) ''json'')) =
       [(''nzo_ids'', join '','' ids)]
   \<and> map fst (searchParams (methodCall_url c ''set_config_default''
                  (setConfigDefault_args (Many values)) ''json'')) =
       replicate (length values) ''keyword'' @ [''mode'', ''output'', ''apikey'']
   \<and> jobDelete
        (env_expecting
           ((=) \<lparr>href = mHost c @ ''/api'',
                 searchParams = [(''name'', ''delete''), (''value'', join '','' ids),
                                 (''mode'', ''queue''), (''output'', ''json''),
                                 (''apikey'', mApiKey c)]\<rparr>)
           decoded)
        c (Many ids) = Fulfilled decoded
   \<and> queue
        (env_expecting
           (\<lambda>url. filter (\<lambda>p. fst p = ''nzo_ids'') (searchParams url)
                    = [(''nzo_ids'', join '','' ids)])
           (JObj [(''queue'', q)]))
        c start limit search (Some ids) = Fulfilled q
   \<and> setConfigDefault
        (env_expecting
           (\<lambda>url. map fst (searchParams url)
                    = replicate (length values) ''keyword'' @ [''mode'', ''output'', ''apikey''])
           decoded)
        c (Many values) = Fulfilled decoded"
proof -
  have a: "searchParams (methodCall_url c ''queue'' (jobDelete_args (Many ids)) ''json'') =
     [(''name'', ''delete''), (''value'', join '','' ids),
      (''mode'', ''queue''), (''output'', ''json''), (''apikey'', mApiKey c)]"
    by (simp add: methodCall_url_searchParams jobDelete_args_def own_prop_def)
  have b: "filter (\<lambda>p. fst p = ''nzo_ids'')
        (searchParams (methodCall_url c ''queue''
           (SearchParams (queue_searchParams start limit search (Some ids))) ''json'')) =
       [(''nzo_ids'', join '','' ids)]"
    by (simp add: methodCall_url_distinct_SearchParams [OF queue_searchParams_distinct]
          queue_searchParams_nzo_ids)
  have c: "map fst (searchParams (methodCall_url c ''set_config_default''
                  (setConfigDefault_args (Many values)) ''json'')) =
       replicate (length values) ''keyword'' @ [''mode'', ''output'', ''apikey'']"
    by (simp add: methodCall_url_searchParams setConfigDefault_args_def keyword_fold
          comp_def map_const_replicate)
  have d: "jobDelete
        (env_expecting
           ((=) \<lparr>href = mHost c @ ''/api'',
                 searchParams = [(''name'', ''delete''), (''value'', join '','' ids),
                                 (''mode'', ''queue''), (''output'', ''json''),
                                 (''apikey'', mApiKey c)]\<rparr>)
           decoded)
        c (Many ids) = Fulfilled decoded"
    using methodCall_url_record [of c "''queue''" "jobDelete_args (Many ids)" "''json''"] a
    by (simp add: jobDelete_def executor_await_def methodCall_expected)
  have e: "queue
        (env_expecting
           (\<lambda>url. filter (\<lambda>p. fst p = ''nzo_ids'') (searchParams url)
                    = [(''nzo_ids'', join '','' ids)])
           (JObj [(''queue'', q)]))
        c start limit search (Some ids) = Fulfilled q"
    using b by (simp add: queue_def async_await_def methodCall_expected get_prop_def own_prop_def)
  have f: "setConfigDefault
        (env_expecting
           (\<lambda>url. map fst (searchParams url)
                    = replicate (length values) ''keyword'' @ [''mode'', ''output'', ''apikey''])
           decoded)
        c (Many values) = Fulfilled decoded"
    using c by (simp add: setConfigDefault_def executor_await_def methodCall_expected)
  from a b c d e f show ?thesis by (intro conjI)
qed

text \<open>
  C5 as stated (a list is always one comma-joined field, never a repeated key) fails for
  \<^verbatim>\<open>setConfigDefault(["a", "b"])\<close>: the key \<open>keyword\<close> occurs twice and no field
  holds \<open>a,b\<close>.
\<close>

theorem setConfigDefault_repeats_key:
  "map fst (searchParams (methodCall_url example_client ''set_config_default''
              (setConfigDefault_args (Many [''a'', ''b''])) ''json'')) =
     [''keyword'', ''keyword'', ''mode'', ''output'', ''apikey'']
   \<and> (''keyword'', join '','' [''a'', ''b''])
        \<notin> set (searchParams (methodCall_url example_client ''set_config_default''
                   (setConfigDefault_args (Many [''a'', ''b''])) ''json''))"
  by (simp add: methodCall_url_searchParams setConfigDefault_args_def URLSearchParams_append_def
        example_client_def)

section \<open>Properties of the response interpreter\<close>

text \<open>A rejection of the transport is reported with the cause appended to the message.\<close>

lemma methodCall_rejected_transport:
  "got env (methodCall_url c method args output) = GotRejects (Error m) \<Longrightarrow>
   methodCall env c method args output = Rejected (Error (''Error accessing SABnzbd host: '' @ m))"
  by (simp add: methodCall_def methodCall_catch_def)

text \<open>
  A body that \<^verbatim>\<open>JSON.parse\<close> refuses: the \<^verbatim>\<open>SyntaxError\<close> leaves the
  \<^verbatim>\<open>.then\<close> callback and reaches the \<^verbatim>\<open>.catch\<close> handler.
\<close>

lemma methodCall_parse_failure:
  "got env (methodCall_url c method args ''json'') = GotResponds 200 body \<Longrightarrow>
   JSON_parse env body = Inl m \<Longrightarrow>
   methodCall env c method args ''json'' = Rejected (Error (''Error accessing SABnzbd host: '' @ m))"
  by (simp add: methodCall_def methodCall_then_def methodCall_catch_def)

text \<open>A response with any other status than 200 settles nothing.\<close>

lemma methodCall_other_status:
  "got env (methodCall_url c method args output) = GotResponds statusCode body \<Longrightarrow>
   statusCode \<noteq> 200 \<Longrightarrow>
   methodCall env c method args output = Pending"
  by (simp add: methodCall_def methodCall_then_def)

lemma methodCall_catch_not_decode: "methodCall_catch e = Rejected e' \<Longrightarrow> \<not> is_Decode_Error e'"
  by (cases e) (auto simp: methodCall_catch_def is_Decode_Error_def)

lemma methodCall_catch_transport: "\<exists>e'. methodCall_catch e = Rejected e' \<and> is_Transport_Error e'"
  by (cases e) (auto simp: methodCall_catch_def is_Transport_Error_def)

text \<open>
  The message of the decode error is produced only when the call of \<^verbatim>\<open>got\<close> itself
  throws, never for a response.
\<close>

lemma methodCall_decode_error_only_sync:
  assumes "methodCall env c method args output = Rejected e" and "is_Decode_Error e"
  shows "\<exists>x. got env (methodCall_url c method args output) = GotThrows x"
proof (cases "got env (methodCall_url c method args output)")
  case (GotThrows x)
  then show ?thesis by simp
next
  case (GotRejects x)
  with assms(1) have "methodCall_catch x = Rejected e" by (simp add: methodCall_def)
  with assms(2) show ?thesis using methodCall_catch_not_decode by blast
next
  case (GotResponds statusCode body)
  show ?thesis
  proof (cases "methodCall_then env output statusCode body")
    case (Inl x)
    with GotResponds assms(1) have "methodCall_catch x = Rejected e" by (simp add: methodCall_def)
    with assms(2) show ?thesis using methodCall_catch_not_decode by blast
  next
    case (Inr p)
    with GotResponds assms(1) have "p = Rejected e" by (simp add: methodCall_def)
    with Inr show ?thesis by (auto simp: methodCall_then_def split: if_splits sum.splits)
  qed
qed

text \<open>
  C1 (a 200 response whose body is not JSON fails with the decode error, never with the
  transport error). A server that answers 200 with the body \<open><html>\<close>, for which
  \<^verbatim>\<open>JSON.parse\<close> throws a \<^verbatim>\<open>SyntaxError\<close>: the promise of \<^verbatim>\<open>methodCall\<close> is
  rejected with the message of the transport error, the parser's message appended. The
  handler that holds the decode message is the \<^verbatim>\<open>catch\<close> of the surrounding
  \<^verbatim>\<open>try\<close>, which an exception thrown inside the \<^verbatim>\<open>.then\<close> callback does not reach.
\<close>

theorem methodCall_unparseable_body:
  "methodCall (env_responding 200 ''<html>'' (Inl ''Unexpected token < in JSON at position 0''))
     example_client ''version'' (Any JUndefined) ''json''
     = Rejected (Error ''Error accessing SABnzbd host: Unexpected token < in JSON at position 0'')
   \<and> is_Transport_Error
       (Error ''Error accessing SABnzbd host: Unexpected token < in JSON at position 0'')
   \<and> \<not> is_Decode_Error
       (Error ''Error accessing SABnzbd host: Unexpected token < in JSON at position 0'')"
  by (simp add: methodCall_def methodCall_then_def methodCall_catch_def env_responding_def
        is_Transport_Error_def is_Decode_Error_def)

text \<open>
  C6 (a connection failure or any status other than 200 fails with the transport error).
  A response that \<^verbatim>\<open>got\<close> delivers with status 204: the \<^verbatim>\<open>.then\<close> callback tests
  \<^verbatim>\<open>statusCode === 200\<close> and has no other branch, so the promise of
  \<^verbatim>\<open>methodCall\<close> is neither fulfilled nor rejected.
\<close>

theorem methodCall_status_204:
  "methodCall (env_responding 204 [] (Inl ''Unexpected end of JSON input''))
     example_client ''pause'' (Any JUndefined) ''json'' = Pending"
  by (simp add: methodCall_def methodCall_then_def env_responding_def)

section \<open>Properties of the operations\<close>

text \<open>\<^verbatim>\<open>version\<close> checks the field it returns.\<close>

lemma version_missing_field:
  "methodCall env c ''version'' (Any JUndefined) ''json'' = Fulfilled (JObj kvs) \<Longrightarrow>
   map_of kvs ''version'' = None \<Longrightarrow>
   \<exists>e. version env c = Rejected e \<and> is_Protocol_Error e"
  by (simp add: version_def executor_await_def get_prop_def own_prop_def is_Protocol_Error_def)

text \<open>
  A rejection of \<^verbatim>\<open>methodCall\<close> is lost by the operations written as
  \<^verbatim>\<open>new Promise(async ...)\<close>, and passed on by \<^verbatim>\<open>queue\<close>, an async function.
\<close>

lemma version_rejection_lost:
  "methodCall env c ''version'' (Any JUndefined) ''json'' = Rejected e \<Longrightarrow>
   version env c = Pending"
  by (simp add: version_def executor_await_def)

lemma queue_rejection_kept:
  "methodCall env c ''queue'' (SearchParams (queue_searchParams start limit search nzoIds)) ''json''
     = Rejected e \<Longrightarrow>
   queue env c start limit search nzoIds = Rejected e"
  by (simp add: queue_def async_await_def)

text \<open>
  C3 (an operation that requires a field of the decoded response fails with the protocol
  error when the field is missing). \<^verbatim>\<open>getFiles\<close> resolves with
  \<^verbatim>\<open>results.files\<close> unchecked: for the decoded response \<open>{}\<close> its promise is
  fulfilled with \<^verbatim>\<open>undefined\<close>.
\<close>

theorem getFiles_missing_field:
  "getFiles (env_responding 200 ''{}'' (Inr (JObj []))) example_client ''SABnzbd_nzo_1''
     = Fulfilled JUndefined"
  by (simp add: getFiles_def executor_await_def methodCall_def methodCall_then_def
        env_responding_def get_prop_def own_prop_def)

text \<open>\<^verbatim>\<open>queue\<close> does the same with \<^verbatim>\<open>resultsObj.queue\<close>.\<close>

lemma queue_missing_field:
  "queue (env_responding 200 ''{}'' (Inr (JObj []))) example_client None None None None
     = Fulfilled JUndefined"
  by (simp add: queue_def async_await_def methodCall_def methodCall_then_def
        env_responding_def get_prop_def own_prop_def)

subsection \<open>translateText\<close>

text \<open>
  C10: when the decoded response of \<open>translate\<close> has a truthy \<open>value\<close> (a non-empty
  string in particular), the executor of \<^verbatim>\<open>translateText\<close> returns the value without
  calling \<^verbatim>\<open>resolve\<close>: the promise is neither fulfilled nor rejected.
\<close>

theorem translateText_value_pending:
  assumes "methodCall env c ''translate'' (Any (JObj [(''value'', JStr text)])) ''json''
             = Fulfilled results"
      and "get_prop results ''value'' = Inr v"
      and "truthy v"
  shows "translateText env c text = Pending"
  using assms by (simp add: translateText_def executor_await_def)

theorem translateText_value_pending_witness:
  "methodCall (env_responding 200 ''{value: Hallo}'' (Inr (JObj [(''value'', JStr ''Hallo'')])))
     example_client ''translate'' (Any (JObj [(''value'', JStr ''Hello'')])) ''json''
     = Fulfilled (JObj [(''value'', JStr ''Hallo'')])
   \<and> get_prop (JObj [(''value'', JStr ''Hallo'')]) ''value'' = Inr (JStr ''Hallo'')
   \<and> truthy (JStr ''Hallo'')
   \<and> translateText (env_responding 200 ''{value: Hallo}'' (Inr (JObj [(''value'', JStr ''Hallo'')])))
        example_client ''Hello'' = Pending"
proof -
  have h1: "methodCall (env_responding 200 ''{value: Hallo}'' (Inr (JObj [(''value'', JStr ''Hallo'')])))
     example_client ''translate'' (Any (JObj [(''value'', JStr ''Hello'')])) ''json''
     = Fulfilled (JObj [(''value'', JStr ''Hallo'')])"
    by (simp add: methodCall_def methodCall_then_def env_responding_def)
  have h2: "get_prop (JObj [(''value'', JStr ''Hallo'')]) ''value'' = Inr (JStr ''Hallo'')"
    by (simp add: get_prop_def own_prop_def)
  have h3: "truthy (JStr ''Hallo'')" by simp
  show ?thesis
    using translateText_value_pending [OF h1 h2 h3] h1 h2 h3 by (intro conjI) assumption+
qed

text \<open>The promise of \<^verbatim>\<open>translateText\<close> is never fulfilled, and it is rejected only
  on the branch taken for a falsy \<open>value\<close>.\<close>

lemma translateText_never_fulfils: "translateText env c text \<noteq> Fulfilled x"
  by (auto simp: translateText_def executor_await_def split: promise.splits sum.splits)

lemma translateText_settles_only_on_error_branch:
  assumes "translateText env c text = Rejected e"
  shows "\<exists>results. methodCall env c ''translate'' (Any (JObj [(''value'', JStr text)])) ''json''
                     = Fulfilled results
                 \<and> \<not> truthy (own_prop results ''value'')"
  using assms
  by (auto simp: translateText_def executor_await_def get_prop_def
           split: promise.splits sum.splits jsval.splits if_splits)

section \<open>The statistics projection\<close>

lemma Map_set_lookup: "map_of (Map_set k v m) = (map_of m)(k \<mapsto> v)"
  by (induction m) (auto simp: fun_eq_iff)

lemma Map_set_keys: "fst ` set (Map_set k v m) = insert k (fst ` set m)"
  by (induction m) auto

lemma Map_set_names:
  "map fst (Map_set k v m) = (if k \<in> set (map fst m) then map fst m else map fst m @ [k])"
  by (induction m) auto

lemma Map_set_distinct: "distinct (map fst m) \<Longrightarrow> distinct (map fst (Map_set k v m))"
  by (simp add: Map_set_names)

lemma get_prop_Inr: "get_prop v k = Inr x \<Longrightarrow> x = own_prop v k"
  by (auto simp: get_prop_def split: jsval.splits)

lemma date_loop_keys:
  "date_loop ds rd m = Inr m' \<Longrightarrow> set (map fst m') = set (map fst m) \<union> set ds"
proof (induction ds arbitrary: m)
  case Nil
  then show ?case by simp
next
  case (Cons d ds)
  then obtain v where v: "rd d = Inr v" and rest: "date_loop ds rd (Map_set d v m) = Inr m'"
    by (auto split: sum.splits)
  from Cons.IH [OF rest] show ?case by (simp add: Map_set_keys)
qed

lemma date_loop_distinct:
  "date_loop ds rd m = Inr m' \<Longrightarrow> distinct (map fst m) \<Longrightarrow> distinct (map fst m')"
proof (induction ds arbitrary: m)
  case Nil
  then show ?case by simp
next
  case (Cons d ds)
  then obtain v where v: "rd d = Inr v" and rest: "date_loop ds rd (Map_set d v m) = Inr m'"
    by (auto split: sum.splits)
  from Cons.IH [OF rest] Cons.prems(2) show ?case by (simp add: Map_set_distinct)
qed

lemma date_loop_lookup:
  "date_loop ds rd m = Inr m' \<Longrightarrow>
   map_of m' k = (if k \<in> set ds then (case rd k of Inr v \<Rightarrow> Some v | Inl e \<Rightarrow> None) else map_of m k)"
proof (induction ds arbitrary: m)
  case Nil
  then show ?case by simp
next
  case (Cons x ds)
  then obtain v where v: "rd x = Inr v" and rest: "date_loop ds rd (Map_set x v m) = Inr m'"
    by (auto split: sum.splits)
  from Cons.IH [OF rest] v show ?case by (simp add: Map_set_lookup)
qed

lemma date_loop_reads:
  "date_loop ds rd m = Inr m' \<Longrightarrow> d \<in> set ds \<Longrightarrow> \<exists>v. rd d = Inr v"
  by (induction ds arbitrary: m) (auto split: sum.splits)

text \<open>
  A date loop that reads \<open>from[d]\<close> for the keys of \<open>src\<close>, started on an empty
  lookup: each key of \<open>src\<close> is a key of the result exactly once, no other key is, and
  the entry of a key is the value read from \<open>from\<close>.
\<close>

lemma date_loop_result:
  assumes "date_loop (for_in src) (\<lambda>d. get_prop from d) [] = Inr m'"
  shows "distinct (map fst m')"
    and "set (map fst m') = set (for_in src)"
    and "d \<in> set (for_in src) \<Longrightarrow> map_of m' d = Some (own_prop from d)"
proof -
  show "distinct (map fst m')" using date_loop_distinct [OF assms] by simp
  show "set (map fst m') = set (for_in src)" using date_loop_keys [OF assms] by simp
  assume d: "d \<in> set (for_in src)"
  from date_loop_reads [OF assms d] obtain v where v: "get_prop from d = Inr v" by blast
  with date_loop_lookup [OF assms, of d] d get_prop_Inr [OF v]
  show "map_of m' d = Some (own_prop from d)" by simp
qed

lemma servers_loop_keys:
  "servers_loop srvs names m = Inr m' \<Longrightarrow> set (map fst m') = set (map fst m) \<union> set names"
proof (induction names arbitrary: m)
  case Nil
  then show ?case by simp
next
  case (Cons n names)
  then obtain sr s where "servers_loop srvs names (Map_set n s m) = Inr m'"
    by (auto split: sum.splits)
  from Cons.IH [OF this] show ?case by (simp add: Map_set_keys)
qed

lemma servers_loop_distinct:
  "servers_loop srvs names m = Inr m' \<Longrightarrow> distinct (map fst m) \<Longrightarrow> distinct (map fst m')"
proof (induction names arbitrary: m)
  case Nil
  then show ?case by simp
next
  case (Cons n names)
  then obtain sr s where "servers_loop srvs names (Map_set n s m) = Inr m'"
    by (auto split: sum.splits)
  from Cons.IH [OF this] Cons.prems(2) show ?case by (simp add: Map_set_distinct)
qed

lemma servers_loop_lookup:
  "servers_loop srvs names m = Inr m' \<Longrightarrow> n \<in> set names \<Longrightarrow>
   \<exists>server. serverStats_server (own_prop srvs n) = Inr server \<and> map_of m' n = Some server"
proof (induction names arbitrary: m)
  case Nil
  then show ?case by simp
next
  case (Cons x names)
  then obtain sr s where sr: "get_prop srvs x = Inr sr"
    and s: "serverStats_server sr = Inr s"
    and rest: "servers_loop srvs names (Map_set x s m) = Inr m'"
    by (auto split: sum.splits)
  show ?case
  proof (cases "n \<in> set names")
    case True
    with Cons.IH [OF rest] show ?thesis by simp
  next
    case False
    with Cons.prems(2) have nx: "n = x" by simp
    have keep: "map_of m'' n = map_of m0 n"
      if "servers_loop srvs ns m0 = Inr m''" and "n \<notin> set ns" for ns m0 m''
      using that
    proof (induction ns arbitrary: m0)
      case Nil
      then show ?case by simp
    next
      case (Cons y ys)
      then obtain t where r: "servers_loop srvs ys (Map_set y t m0) = Inr m''"
        by (auto split: sum.splits)
      from Cons.IH [OF r] Cons.prems(2) show ?case by (simp add: Map_set_lookup)
    qed
    from keep [OF rest False] nx have "map_of m' n = Some s" by (simp add: Map_set_lookup)
    moreover from sr s nx have "serverStats_server (own_prop srvs n) = Inr s"
      using get_prop_Inr by blast
    ultimately show ?thesis by blast
  qed
qed

text \<open>What a successful run of the loop body has put into the three lookups.\<close>

lemma serverStats_server_result:
  assumes "serverStats_server serverResult = Inr server"
  shows "distinct (map fst (daily server))"
    and "set (map fst (daily server)) = set (for_in (own_prop serverResult ''daily''))"
    and "distinct (map fst (articles_tried server))"
    and "set (map fst (articles_tried server)) = set (for_in (own_prop serverResult ''articles_tried''))"
    and "distinct (map fst (articles_success server))"
    and "set (map fst (articles_success server)) = set (for_in (own_prop serverResult ''articles_success''))"
    and "d \<in> set (for_in (own_prop serverResult ''daily'')) \<Longrightarrow>
         map_of (daily server) d = Some (own_prop (own_prop serverResult ''daily'') d)"
    and "d \<in> set (for_in (own_prop serverResult ''articles_tried'')) \<Longrightarrow>
         map_of (articles_tried server) d = Some (own_prop (own_prop serverResult ''articles_tried'') d)"
    and "d \<in> set (for_in (own_prop serverResult ''articles_success'')) \<Longrightarrow>
         map_of (articles_success server) d = Some (own_prop (own_prop serverResult ''articles_tried'') d)"
proof -
  from assms obtain dm tm sm where
    dm: "date_loop (for_in (own_prop serverResult ''daily''))
           (\<lambda>d. get_prop (own_prop serverResult ''daily'') d) [] = Inr dm"
    and tm: "date_loop (for_in (own_prop serverResult ''articles_tried''))
           (\<lambda>d. get_prop (own_prop serverResult ''articles_tried'') d) [] = Inr tm"
    and sm: "date_loop (for_in (own_prop serverResult ''articles_success''))
           (\<lambda>d. get_prop (own_prop serverResult ''articles_tried'') d) [] = Inr sm"
    and server: "daily server = dm" "articles_tried server = tm" "articles_success server = sm"
    by (auto simp: serverStats_server_def Let_def split: sum.splits)
  show "distinct (map fst (daily server))"
    and "set (map fst (daily server)) = set (for_in (own_prop serverResult ''daily''))"
    and "d \<in> set (for_in (own_prop serverResult ''daily'')) \<Longrightarrow>
         map_of (daily server) d = Some (own_prop (own_prop serverResult ''daily'') d)"
    using date_loop_result [OF dm] server by simp_all
  show "distinct (map fst (articles_tried server))"
    and "set (map fst (articles_tried server)) = set (for_in (own_prop serverResult ''articles_tried''))"
    and "d \<in> set (for_in (own_prop serverResult ''articles_tried'')) \<Longrightarrow>
         map_of (articles_tried server) d = Some (own_prop (own_prop serverResult ''articles_tried'') d)"
    using date_loop_result [OF tm] server by simp_all
  show "distinct (map fst (articles_success server))"
    and "set (map fst (articles_success server)) = set (for_in (own_prop serverResult ''articles_success''))"
    and "d \<in> set (for_in (own_prop serverResult ''articles_success'')) \<Longrightarrow>
         map_of (articles_success server) d = Some (own_prop (own_prop serverResult ''articles_tried'') d)"
    using date_loop_result [OF sm] server by simp_all
qed

text \<open>The servers of a fulfilled \<^verbatim>\<open>serverStats\<close>.\<close>

lemma serverStats_fulfilled:
  assumes "methodCall env c ''server_stats'' (Any JUndefined) ''json'' = Fulfilled results"
      and "serverStats env c = Fulfilled stats"
  shows "servers_loop (own_prop results ''servers'') (for_in (own_prop results ''servers'')) []
           = Inr (servers stats)"
  using assms
  by (auto simp: serverStats_def executor_await_def serverStats_project_def Let_def
           split: sum.splits)

lemma serverStats_servers:
  assumes "methodCall env c ''server_stats'' (Any JUndefined) ''json'' = Fulfilled results"
      and "serverStats env c = Fulfilled stats"
      and "serverName \<in> set (for_in (own_prop results ''servers''))"
  shows "\<exists>server. serverStats_server (own_prop (own_prop results ''servers'') serverName) = Inr server
                \<and> map_of (servers stats) serverName = Some server"
  using servers_loop_lookup [OF serverStats_fulfilled [OF assms(1,2)] assms(3)] .

subsection \<open>The projection produces a result\<close>

lemma date_loop_total:
  "from \<noteq> JUndefined \<Longrightarrow> from \<noteq> JNull \<Longrightarrow> \<exists>m'. date_loop ds (\<lambda>d. get_prop from d) m = Inr m'"
proof (induction ds arbitrary: m)
  case Nil
  show ?case by simp
next
  case (Cons d ds)
  from Cons.prems have "get_prop from d = Inr (own_prop from d)"
    by (cases "from") (simp_all add: get_prop_def)
  with Cons.IH [OF Cons.prems] show ?case by simp
qed

lemma date_loop_own_total: "\<exists>m'. date_loop (for_in src) (\<lambda>d. get_prop src d) m = Inr m'"
proof (cases "src = JUndefined \<or> src = JNull")
  case True
  then show ?thesis by auto
next
  case False
  then show ?thesis using date_loop_total [of src] by simp
qed

lemma serverStats_server_total:
  assumes "serverResult \<noteq> JUndefined" "serverResult \<noteq> JNull"
      and "own_prop serverResult ''articles_tried'' \<noteq> JUndefined"
      and "own_prop serverResult ''articles_tried'' \<noteq> JNull"
  shows "\<exists>server. serverStats_server serverResult = Inr server"
proof -
  from assms(1,2) have d: "get_prop serverResult ''day'' = Inr (own_prop serverResult ''day'')"
    by (cases serverResult) (simp_all add: get_prop_def)
  obtain dm where dm: "date_loop (for_in (own_prop serverResult ''daily''))
       (\<lambda>d. get_prop (own_prop serverResult ''daily'') d) [] = Inr dm"
    using date_loop_own_total by blast
  obtain tm where tm: "date_loop (for_in (own_prop serverResult ''articles_tried''))
       (\<lambda>d. get_prop (own_prop serverResult ''articles_tried'') d) [] = Inr tm"
    using date_loop_own_total by blast
  obtain sm where sm: "date_loop (for_in (own_prop serverResult ''articles_success''))
       (\<lambda>d. get_prop (own_prop serverResult ''articles_tried'') d) [] = Inr sm"
    using date_loop_total [OF assms(3,4)] by blast
  show ?thesis by (simp add: serverStats_server_def Let_def d dm tm sm)
qed

lemma servers_loop_total:
  assumes "\<And>n. n \<in> set names \<Longrightarrow> \<exists>server. serverStats_server (own_prop srvs n) = Inr server"
      and "srvs \<noteq> JUndefined" "srvs \<noteq> JNull"
  shows "\<exists>m'. servers_loop srvs names m = Inr m'"
  using assms(1)
proof (induction names arbitrary: m)
  case Nil
  show ?case by simp
next
  case (Cons n names)
  from assms(2,3) have g: "get_prop srvs n = Inr (own_prop srvs n)"
    by (cases srvs) (simp_all add: get_prop_def)
  from Cons.prems [of n] obtain s where s: "serverStats_server (own_prop srvs n) = Inr s" by auto
  from Cons.IH [of "Map_set n s m"] Cons.prems obtain m' where
    "servers_loop srvs names (Map_set n s m) = Inr m'" by auto
  with g s show ?case by simp
qed

text \<open>
  The projection produces a result whenever the decoded response and every server entry
  are values with properties (not \<^verbatim>\<open>null\<close>) and every server entry has an
  \<^verbatim>\<open>articles_tried\<close>.
\<close>

lemma serverStats_project_total:
  assumes "results \<noteq> JUndefined" "results \<noteq> JNull"
      and "\<And>n. n \<in> set (for_in (own_prop results ''servers'')) \<Longrightarrow>
             own_prop (own_prop results ''servers'') n \<noteq> JUndefined
           \<and> own_prop (own_prop results ''servers'') n \<noteq> JNull
           \<and> own_prop (own_prop (own_prop results ''servers'') n) ''articles_tried'' \<noteq> JUndefined
           \<and> own_prop (own_prop (own_prop results ''servers'') n) ''articles_tried'' \<noteq> JNull"
  shows "\<exists>stats. serverStats_project results = Inr stats"
proof -
  from assms(1,2) have d: "get_prop results ''day'' = Inr (own_prop results ''day'')"
    by (cases results) (simp_all add: get_prop_def)
  have "\<exists>m'. servers_loop (own_prop results ''servers'')
                (for_in (own_prop results ''servers'')) [] = Inr m'"
  proof (cases "own_prop results ''servers'' = JUndefined \<or> own_prop results ''servers'' = JNull")
    case True
    then show ?thesis by auto
  next
    case False
    show ?thesis
    proof (rule servers_loop_total)
      fix n assume "n \<in> set (for_in (own_prop results ''servers''))"
      from assms(3) [OF this]
      show "\<exists>server. serverStats_server (own_prop (own_prop results ''servers'') n) = Inr server"
        by (intro serverStats_server_total) simp_all
    qed (use False in simp_all)
  qed
  then obtain m' where "servers_loop (own_prop results ''servers'')
                (for_in (own_prop results ''servers'')) [] = Inr m'" by blast
  with d show ?thesis by (simp add: serverStats_project_def Let_def)
qed

text \<open>
  A lookup built from an object answers every key as the object does, so it does not
  depend on the order in which the object lists its keys.
\<close>

lemma date_loop_object:
  assumes "date_loop (for_in (JObj kvs)) (\<lambda>d. get_prop (JObj kvs) d) [] = Inr m'"
  shows "map_of m' = map_of kvs"
proof
  fix d
  show "map_of m' d = map_of kvs d"
  proof (cases "d \<in> set (for_in (JObj kvs))")
    case True
    then have "map_of kvs d \<noteq> None" by (simp add: map_of_eq_None_iff)
    then obtain v where "map_of kvs d = Some v" by blast
    with date_loop_result(3) [OF assms True] show ?thesis by (simp add: own_prop_def)
  next
    case False
    then have "map_of kvs d = None" by (simp add: map_of_eq_None_iff)
    moreover from date_loop_lookup [OF assms, of d] False have "map_of m' d = None" by simp
    ultimately show ?thesis by simp
  qed
qed

lemma date_loop_order_independent:
  assumes "date_loop (for_in (JObj kvs)) (\<lambda>d. get_prop (JObj kvs) d) [] = Inr m1"
      and "date_loop (for_in (JObj kvs')) (\<lambda>d. get_prop (JObj kvs') d) [] = Inr m2"
      and "distinct (map fst kvs)" and "distinct (map fst kvs')" and "set kvs = set kvs'"
  shows "map_of m1 = map_of m2"
  using date_loop_object [OF assms(1)] date_loop_object [OF assms(2)] assms(3-5)
  by (simp add: map_of_inject_set)

subsection \<open>The example\<close>

lemma example_methodCall:
  "methodCall (env_responding 200 ''(stats)'' (Inr example_stats)) example_client
     ''server_stats'' (Any JUndefined) ''json'' = Fulfilled example_stats"
  by (simp add: methodCall_def methodCall_then_def env_responding_def)

lemma example_serverStats:
  "serverStats (env_responding 200 ''(stats)'' (Inr example_stats)) example_client
     = Fulfilled example_stats_result"
  by (simp add: serverStats_def executor_await_def methodCall_def methodCall_then_def
        env_responding_def serverStats_project_def serverStats_server_def Let_def
        get_prop_def own_prop_def example_stats_def example_stats_result_def)

lemma example_server_names:
  "for_in (own_prop example_stats ''servers'') = [''news.alpha'', ''news.beta'']"
  by (simp add: example_stats_def own_prop_def)

lemma example_alpha:
  "own_prop (own_prop example_stats ''servers'') ''news.alpha'' =
     JObj [(''day'', JNum 1), (''week'', JNum 2), (''month'', JNum 3), (''total'', JNum 4),
           (''daily'', JObj [(''2021-07-01'', JNum 11), (''2021-07-02'', JNum 12),
                             (''2021-07-03'', JNum 13)]),
           (''articles_tried'', JObj [(''2021-07-01'', JNum 21), (''2021-07-02'', JNum 22),
                                      (''2021-07-03'', JNum 23)]),
           (''articles_success'', JObj [(''2021-07-01'', JNum 31), (''2021-07-02'', JNum 32),
                                        (''2021-07-03'', JNum 33)])]"
  by (simp add: example_stats_def own_prop_def)

subsection \<open>The lookups of a fulfilled result\<close>

text \<open>
  C7: in the result of \<^verbatim>\<open>serverStats\<close>, for every server of the decoded response
  and every date key visited in the server's \<open>articles_success\<close> object, the entry of
  the output lookup \<open>articles_success\<close> under that key is the value that the server's
  \<open>articles_tried\<close> object has under the key (\<^verbatim>\<open>undefined\<close> when it has none), not
  the value of \<open>articles_success\<close>.
\<close>

theorem articles_success_from_articles_tried:
  assumes "methodCall env c ''server_stats'' (Any JUndefined) ''json'' = Fulfilled results"
      and "serverStats env c = Fulfilled stats"
      and "serverName \<in> set (for_in (own_prop results ''servers''))"
      and "d \<in> set (for_in (own_prop (own_prop (own_prop results ''servers'') serverName)
                               ''articles_success''))"
  shows "\<exists>server. Map_get (servers stats) serverName = Some server
           \<and> Map_get (articles_success server) d =
               Some (own_prop (own_prop (own_prop (own_prop results ''servers'') serverName)
                                 ''articles_tried'') d)"
proof -
  from serverStats_servers [OF assms(1-3)] obtain server where
    s: "serverStats_server (own_prop (own_prop results ''servers'') serverName) = Inr server"
    and l: "map_of (servers stats) serverName = Some server" by blast
  from serverStats_server_result(9) [OF s assms(4)] l show ?thesis
    by (auto simp: Map_get_def)
qed

theorem articles_success_from_articles_tried_witness:
  "methodCall (env_responding 200 ''(stats)'' (Inr example_stats)) example_client
     ''server_stats'' (Any JUndefined) ''json'' = Fulfilled example_stats
   \<and> serverStats (env_responding 200 ''(stats)'' (Inr example_stats)) example_client
       = Fulfilled example_stats_result
   \<and> ''news.alpha'' \<in> set (for_in (own_prop example_stats ''servers''))
   \<and> ''2021-07-02'' \<in> set (for_in (own_prop (own_prop (own_prop example_stats ''servers'')
                                      ''news.alpha'') ''articles_success''))
   \<and> (\<exists>server. Map_get (servers example_stats_result) ''news.alpha'' = Some server
           \<and> Map_get (articles_success server) ''2021-07-02'' =
               Some (own_prop (own_prop (own_prop (own_prop example_stats ''servers'') ''news.alpha'')
                                 ''articles_tried'') ''2021-07-02''))"
proof -
  have h3: "''news.alpha'' \<in> set (for_in (own_prop example_stats ''servers''))"
    by (simp add: example_server_names)
  have h4: "''2021-07-02'' \<in> set (for_in (own_prop (own_prop (own_prop example_stats ''servers'')
                                      ''news.alpha'') ''articles_success''))"
    by (simp add: example_alpha) (simp add: own_prop_def)
  show ?thesis
    using articles_success_from_articles_tried [OF example_methodCall example_serverStats h3 h4]
      example_methodCall example_serverStats h3 h4
    by (intro conjI) assumption+
qed

text \<open>
  In the example the entry for \<open>2021-07-02\<close> of the first server is 22, the value of
  \<open>articles_tried\<close>; the response has 32 under \<open>articles_success\<close>.
\<close>

lemma example_articles_success_entry:
  "Map_get (articles_success (the (Map_get (servers example_stats_result) ''news.alpha'')))
     ''2021-07-02'' = Some (JNum 22)
   \<and> own_prop (own_prop (own_prop (own_prop example_stats ''servers'') ''news.alpha'')
                ''articles_success'') ''2021-07-02'' = JNum 32"
  by (simp add: example_alpha) (simp add: own_prop_def Map_get_def example_stats_result_def)

text \<open>
  C8: in the result of \<^verbatim>\<open>serverStats\<close>, every server of the decoded response has an
  entry, and in each of its three lookups (\<open>daily\<close>, \<open>articles_tried\<close>,
  \<open>articles_success\<close>) the keys are pairwise distinct and are exactly the date keys of
  the corresponding source object, in whatever order the source lists them.
\<close>

theorem serverStats_date_keys:
  assumes "methodCall env c ''server_stats'' (Any JUndefined) ''json'' = Fulfilled results"
      and "serverStats env c = Fulfilled stats"
      and "serverName \<in> set (for_in (own_prop results ''servers''))"
  shows "\<exists>server. Map_get (servers stats) serverName = Some server
           \<and> distinct (map fst (daily server))
           \<and> set (map fst (daily server)) =
               set (for_in (own_prop (own_prop (own_prop results ''servers'') serverName) ''daily''))
           \<and> distinct (map fst (articles_tried server))
           \<and> set (map fst (articles_tried server)) =
               set (for_in (own_prop (own_prop (own_prop results ''servers'') serverName)
                              ''articles_tried''))
           \<and> distinct (map fst (articles_success server))
           \<and> set (map fst (articles_success server)) =
               set (for_in (own_prop (own_prop (own_prop results ''servers'') serverName)
                              ''articles_success''))"
proof -
  from serverStats_servers [OF assms] obtain server where
    s: "serverStats_server (own_prop (own_prop results ''servers'') serverName) = Inr server"
    and l: "map_of (servers stats) serverName = Some server" by blast
  from serverStats_server_result(1-6) [OF s] l show ?thesis
    by (auto simp: Map_get_def)
qed

theorem serverStats_date_keys_witness:
  "methodCall (env_responding 200 ''(stats)'' (Inr example_stats)) example_client
     ''server_stats'' (Any JUndefined) ''json'' = Fulfilled example_stats
   \<and> serverStats (env_responding 200 ''(stats)'' (Inr example_stats)) example_client
       = Fulfilled example_stats_result
   \<and> ''news.beta'' \<in> set (for_in (own_prop example_stats ''servers''))
   \<and> (\<exists>server. Map_get (servers example_stats_result) ''news.beta'' = Some server
           \<and> distinct (map fst (daily server))
           \<and> set (map fst (daily server)) =
               set (for_in (own_prop (own_prop (own_prop example_stats ''servers'') ''news.beta'') ''daily''))
           \<and> distinct (map fst (articles_tried server))
           \<and> set (map fst (articles_tried server)) =
               set (for_in (own_prop (own_prop (own_prop example_stats ''servers'') ''news.beta'')
                              ''articles_tried''))
           \<and> distinct (map fst (articles_success server))
           \<and> set (map fst (articles_success server)) =
               set (for_in (own_prop (own_prop (own_prop example_stats ''servers'') ''news.beta'')
                              ''articles_success'')))"
proof -
  have h3: "''news.beta'' \<in> set (for_in (own_prop example_stats ''servers''))"
    by (simp add: example_server_names)
  show ?thesis
    using serverStats_date_keys [OF example_methodCall example_serverStats h3]
      example_methodCall example_serverStats h3
    by (intro conjI) assumption+
qed

text \<open>Two servers with three dates each: six entries per field.\<close>

lemma example_six_entries:
  "map fst (servers example_stats_result) = [''news.alpha'', ''news.beta'']
   \<and> length (concat (map (\<lambda>s. daily (snd s)) (servers example_stats_result))) = 6
   \<and> length (concat (map (\<lambda>s. articles_tried (snd s)) (servers example_stats_result))) = 6
   \<and> length (concat (map (\<lambda>s. articles_success (snd s)) (servers example_stats_result))) = 6"
  by (simp add: example_stats_result_def)

text \<open>
  The same response with servers, fields and dates listed in another order: every
  lookup of the result answers as before.
\<close>

lemma example_reordered:
  "\<exists>stats'. serverStats (env_responding 200 ''(stats)'' (Inr example_stats_reordered))
               example_client = Fulfilled stats'
     \<and> map_of (servers stats') ''news.alpha'' \<noteq> None
     \<and> map_of (servers stats') ''news.beta'' \<noteq> None
     \<and> list_all (\<lambda>n.
          map_of (daily (the (map_of (servers stats') n)))
            = map_of (daily (the (map_of (servers example_stats_result) n)))
        \<and> map_of (articles_tried (the (map_of (servers stats') n)))
            = map_of (articles_tried (the (map_of (servers example_stats_result) n)))
        \<and> map_of (articles_success (the (map_of (servers stats') n)))
            = map_of (articles_success (the (map_of (servers example_stats_result) n))))
         [''news.alpha'', ''news.beta'']"
  by (simp add: serverStats_def executor_await_def methodCall_def methodCall_then_def
        env_responding_def serverStats_project_def serverStats_server_def Let_def
        get_prop_def own_prop_def example_stats_reordered_def example_stats_result_def
        fun_eq_iff)

end
